theory Spec2Isabelle
  imports
    Complex_Main
    "HOL-Library.Multiset"
    "HOL-Library.Product_Lexorder"
    "HOL-Library.Sublist"
begin

section \<open>Data model\<close>

text \<open>
  The tables of \<^verbatim>\<open>migrations/001_create_fainder_langchain_schema_no_rls.sql\<close> and of the
  tag migration, as lists of rows. Keys generated by the store (\<^verbatim>\<open>uuid_generate_v4()\<close>)
  are drawn from a counter; user ids are the opaque strings the server actions receive.
  A nullable column is an \<open>option\<close>. The two JSONB diagnostic columns of
  \<^verbatim>\<open>documents\<close> (\<^verbatim>\<open>processing_metadata\<close>, \<^verbatim>\<open>image_analysis\<close>) are not modelled.
\<close>

type_synonym uuid = nat
type_synonym vector = "real list"
type_synonym timestamp = nat

datatype meta_value = MStr string | MList "string list"
type_synonym metadata = "(string \<times> meta_value) list"

datatype doc_status = Uploaded | Processing | Chunking | Embedding | Processed | Error

record document =
  d_id :: uuid
  d_user_id :: string
  d_filename :: string
  d_original_filename :: string
  d_storage_path :: string
  d_public_url :: "string option"
  d_file_type :: string
  d_file_size :: nat
  d_mime_type :: string
  d_status :: doc_status
  d_processing_error :: "string option"
  d_extracted_text :: "string option"
  d_title :: "string option"
  d_description :: "string option"
  d_content_type :: "string option"
  d_confidence_score :: "real option"
  d_word_count :: "nat option"
  d_character_count :: "nat option"
  d_auto_tags :: "string list option"
  d_created_at :: timestamp
  d_processed_at :: "timestamp option"

record document_chunk =
  dc_id :: uuid
  dc_document_id :: uuid
  dc_user_id :: "string option"
  dc_chunk_index :: nat
  dc_chunk_text :: string
  dc_metadata :: metadata
  dc_word_count :: nat
  dc_character_count :: nat
  dc_embedding :: "vector option"
  dc_embedded_at :: "timestamp option"

record tag =
  t_id :: uuid
  t_name :: string
  t_category :: "string option"
  t_description :: "string option"

record document_tag =
  dt_id :: uuid
  dt_document_id :: uuid
  dt_tag_id :: uuid
  dt_confidence :: real
  dt_source :: string

record search_query =
  sq_id :: uuid
  sq_user_id :: string
  sq_query_text :: string
  sq_query_embedding :: vector
  sq_query_type :: string
  sq_similarity_threshold :: real
  sq_max_results :: int
  sq_results_count :: nat
  sq_response_time_ms :: "nat option"

record search_result =
  sr_search_query_id :: uuid
  sr_chunk_id :: uuid
  sr_similarity_score :: "real option"
  sr_rank_position :: nat

record database =
  documents :: "document list"
  document_chunks :: "document_chunk list"
  tags :: "tag list"
  document_tags :: "document_tag list"
  search_queries :: "search_query list"
  search_results :: "search_result list"
  next_uuid :: uuid

section \<open>Similarity lookup (\<^verbatim>\<open>similarity_search\<close>, \<^verbatim>\<open>enhanced_similarity_search\<close>)\<close>

text \<open>
  SQL's three-valued logic: a condition is \<open>Some True\<close>, \<open>Some False\<close> or \<open>None\<close> (NULL),
  and \<^verbatim>\<open>WHERE\<close> keeps the rows whose condition is \<open>Some True\<close>.
\<close>

type_synonym sql_bool = "bool option"

definition sql_and :: "sql_bool \<Rightarrow> sql_bool \<Rightarrow> sql_bool" where
  "sql_and a b =
     (if a = Some False \<or> b = Some False then Some False
      else if a = None \<or> b = None then None else Some True)"

definition sql_or :: "sql_bool \<Rightarrow> sql_bool \<Rightarrow> sql_bool" where
  "sql_or a b =
     (if a = Some True \<or> b = Some True then Some True
      else if a = None \<or> b = None then None else Some False)"

definition sql_eq :: "'a option \<Rightarrow> 'a option \<Rightarrow> sql_bool" where
  "sql_eq a b = (case a of None \<Rightarrow> None | Some x \<Rightarrow> (case b of None \<Rightarrow> None | Some y \<Rightarrow> Some (x = y)))"

definition sql_gt :: "real option \<Rightarrow> real option \<Rightarrow> sql_bool" where
  "sql_gt a b = (case a of None \<Rightarrow> None | Some x \<Rightarrow> (case b of None \<Rightarrow> None | Some y \<Rightarrow> Some (y < x)))"

definition sql_is_null :: "'a option \<Rightarrow> sql_bool" where
  "sql_is_null a = Some (a = None)"

definition sql_is_not_null :: "'a option \<Rightarrow> sql_bool" where
  "sql_is_not_null a = Some (a \<noteq> None)"

text \<open>\<^verbatim>\<open>x = ANY(arr)\<close> and the array overlap operator \<^verbatim>\<open>a && b\<close>; array elements are not NULL.\<close>

definition sql_any :: "string option \<Rightarrow> string list option \<Rightarrow> sql_bool" where
  "sql_any x arr =
     (case arr of None \<Rightarrow> None
      | Some a \<Rightarrow> (if a = [] then Some False
                  else (case x of None \<Rightarrow> None | Some v \<Rightarrow> Some (v \<in> set a))))"

definition sql_overlap :: "string list option \<Rightarrow> string list option \<Rightarrow> sql_bool" where
  "sql_overlap a b =
     (case a of None \<Rightarrow> None
      | Some xs \<Rightarrow> (case b of None \<Rightarrow> None | Some ys \<Rightarrow> Some (\<exists>x \<in> set xs. x \<in> set ys)))"

text \<open>
  The pgvector operator \<^verbatim>\<open><=>\<close> (cosine distance) is not part of the repository; every
  function below takes it as the parameter \<open>cd\<close>. On a NULL embedding it is NULL.
\<close>

definition distance :: "(vector \<Rightarrow> vector \<Rightarrow> real) \<Rightarrow> vector \<Rightarrow> document_chunk \<Rightarrow> real option" where
  "distance cd q dc = map_option (\<lambda>e. cd e q) (dc_embedding dc)"

definition similarity :: "(vector \<Rightarrow> vector \<Rightarrow> real) \<Rightarrow> vector \<Rightarrow> document_chunk \<Rightarrow> real option" where
  "similarity cd q dc = map_option (\<lambda>x. 1 - x) (distance cd q dc)"

text \<open>\<^verbatim>\<open>FROM document_chunks dc JOIN documents d ON dc.document_id = d.id\<close>\<close>

definition joined :: "database \<Rightarrow> (document_chunk \<times> document) list" where
  "joined db =
     concat (map (\<lambda>dc. map (\<lambda>d. (dc, d)) (filter (\<lambda>d. dc_document_id dc = d_id d) (documents db)))
                 (document_chunks db))"

definition basic_where ::
  "(vector \<Rightarrow> vector \<Rightarrow> real) \<Rightarrow> vector \<Rightarrow> string \<Rightarrow> real \<Rightarrow> document_chunk \<times> document \<Rightarrow> sql_bool" where
  "basic_where cd q user_id_param similarity_threshold jr =
     sql_and (sql_and (sql_eq (dc_user_id (fst jr)) (Some user_id_param))
                      (sql_is_not_null (dc_embedding (fst jr))))
             (sql_gt (similarity cd q (fst jr)) (Some similarity_threshold))"

definition enhanced_where ::
  "(vector \<Rightarrow> vector \<Rightarrow> real) \<Rightarrow> vector \<Rightarrow> string \<Rightarrow> real \<Rightarrow> string list option \<Rightarrow>
   string list option \<Rightarrow> document_chunk \<times> document \<Rightarrow> sql_bool" where
  "enhanced_where cd q user_id_param similarity_threshold content_types required_tags jr =
     sql_and (sql_and (basic_where cd q user_id_param similarity_threshold jr)
                      (sql_or (sql_is_null content_types)
                              (sql_any (d_content_type (snd jr)) content_types)))
             (sql_or (sql_is_null required_tags)
                     (sql_overlap (d_auto_tags (snd jr)) required_tags))"

text \<open>
  \<^verbatim>\<open>ORDER BY dc.embedding <=> query_embedding\<close>: ascending, NULLs last. Rows with equal
  keys keep the order of the scan (SQL leaves it open; the model fixes the stable choice).
\<close>

definition nulls_last :: "real option \<Rightarrow> nat \<times> real" where
  "nulls_last x = (case x of None \<Rightarrow> (1, 0) | Some v \<Rightarrow> (0, v))"

definition order_by_distance ::
  "(vector \<Rightarrow> vector \<Rightarrow> real) \<Rightarrow> vector \<Rightarrow> (document_chunk \<times> document) list \<Rightarrow>
   (document_chunk \<times> document) list" where
  "order_by_distance cd q rows = sort_key (\<lambda>jr. nulls_last (distance cd q (fst jr))) rows"

text \<open>\<^verbatim>\<open>LIMIT max_results\<close>: PostgreSQL raises an error on a negative count.\<close>

definition sql_limit :: "int \<Rightarrow> 'a list \<Rightarrow> string + 'a list" where
  "sql_limit n xs = (if n < 0 then Inl ''LIMIT must not be negative'' else Inr (take (nat n) xs))"

record search_row =
  r_chunk_id :: uuid
  r_document_id :: uuid
  r_chunk_text :: string
  r_metadata :: metadata
  r_similarity :: "real option"
  r_document_title :: string
  r_document_filename :: string
  r_public_url :: "string option"
  r_content_type :: "string option"
  r_auto_tags :: "string list option"
  r_created_at :: timestamp

definition select_row ::
  "(vector \<Rightarrow> vector \<Rightarrow> real) \<Rightarrow> vector \<Rightarrow> document_chunk \<times> document \<Rightarrow> search_row" where
  "select_row cd q jr =
     \<lparr> r_chunk_id = dc_id (fst jr),
       r_document_id = dc_document_id (fst jr),
       r_chunk_text = dc_chunk_text (fst jr),
       r_metadata = dc_metadata (fst jr),
       r_similarity = similarity cd q (fst jr),
       r_document_title = (case d_title (snd jr) of Some t \<Rightarrow> t | None \<Rightarrow> d_original_filename (snd jr)),
       r_document_filename = d_original_filename (snd jr),
       r_public_url = d_public_url (snd jr),
       r_content_type = d_content_type (snd jr),
       r_auto_tags = d_auto_tags (snd jr),
       r_created_at = d_created_at (snd jr) \<rparr>"

definition similarity_search ::
  "(vector \<Rightarrow> vector \<Rightarrow> real) \<Rightarrow> database \<Rightarrow> vector \<Rightarrow> string \<Rightarrow> real \<Rightarrow> int \<Rightarrow>
   string + search_row list" where
  "similarity_search cd db query_embedding user_id_param similarity_threshold max_results =
     map_sum id (map (select_row cd query_embedding))
       (sql_limit max_results
          (order_by_distance cd query_embedding
             (filter (\<lambda>jr. basic_where cd query_embedding user_id_param similarity_threshold jr
                            = Some True)
                     (joined db))))"

definition enhanced_similarity_search ::
  "(vector \<Rightarrow> vector \<Rightarrow> real) \<Rightarrow> database \<Rightarrow> vector \<Rightarrow> string \<Rightarrow> real \<Rightarrow> int \<Rightarrow>
   string list option \<Rightarrow> string list option \<Rightarrow> string + search_row list" where
  "enhanced_similarity_search cd db query_embedding user_id_param similarity_threshold max_results
      content_types required_tags =
     map_sum id (map (select_row cd query_embedding))
       (sql_limit max_results
          (order_by_distance cd query_embedding
             (filter (\<lambda>jr. enhanced_where cd query_embedding user_id_param similarity_threshold
                              content_types required_tags jr = Some True)
                     (joined db))))"

text \<open>
  The property the lookup is specified by, in the words of the specification: the chunk
  belongs to the user, has an embedding, its similarity (1 minus cosine distance) is above
  the threshold, and its document passes the optional content-type and tag filters.
\<close>

definition qualifies ::
  "(vector \<Rightarrow> vector \<Rightarrow> real) \<Rightarrow> vector \<Rightarrow> string \<Rightarrow> real \<Rightarrow> string list option \<Rightarrow>
   string list option \<Rightarrow> document_chunk \<times> document \<Rightarrow> bool" where
  "qualifies cd q u t content_types required_tags jr =
     (dc_user_id (fst jr) = Some u
      \<and> (case dc_embedding (fst jr) of None \<Rightarrow> False | Some e \<Rightarrow> t < 1 - cd e q)
      \<and> (case content_types of None \<Rightarrow> True
         | Some cts \<Rightarrow> (case d_content_type (snd jr) of None \<Rightarrow> False | Some c \<Rightarrow> c \<in> set cts))
      \<and> (case required_tags of None \<Rightarrow> True
         | Some rts \<Rightarrow> (case d_auto_tags (snd jr) of None \<Rightarrow> False
                       | Some ats \<Rightarrow> (\<exists>x \<in> set ats. x \<in> set rts))))"


definition result_count :: "string + 'a list \<Rightarrow> nat" where
  "result_count res = (case res of Inl _ \<Rightarrow> 0 | Inr rows \<Rightarrow> length rows)"


section \<open>Tags (\<^verbatim>\<open>get_or_create_tag\<close>, \<^verbatim>\<open>add_document_tag\<close>, \<^verbatim>\<open>update_document_auto_tags\<close>)\<close>

text \<open>\<^verbatim>\<open>LOWER\<close> on the ASCII letters.\<close>

definition lower_char :: "char \<Rightarrow> char" where
  "lower_char c =
     (case map_of (zip ''ABCDEFGHIJKLMNOPQRSTUVWXYZ'' ''abcdefghijklmnopqrstuvwxyz'') c of
        Some l \<Rightarrow> l | None \<Rightarrow> c)"

definition LOWER :: "string \<Rightarrow> string" where
  "LOWER s = map lower_char s"

text \<open>
  \<^verbatim>\<open>SELECT id INTO tag_id FROM tags WHERE name = LOWER(tag_name)\<close>, then the insert when no
  row was found. The function returns the id and the new state of the store.
\<close>

definition get_or_create_tag ::
  "database \<Rightarrow> string \<Rightarrow> string option \<Rightarrow> string option \<Rightarrow> uuid \<times> database" where
  "get_or_create_tag db tag_name tag_category tag_description =
     (case find (\<lambda>t. t_name t = LOWER tag_name) (tags db) of
        Some t \<Rightarrow> (t_id t, db)
      | None \<Rightarrow>
          (next_uuid db,
           db\<lparr> tags := tags db @
                  [\<lparr> t_id = next_uuid db, t_name = LOWER tag_name,
                     t_category = tag_category, t_description = tag_description \<rparr>],
               next_uuid := Suc (next_uuid db) \<rparr>))"

text \<open>
  \<^verbatim>\<open>INSERT INTO document_tags ... ON CONFLICT (document_id, tag_id) DO UPDATE SET ...\<close>.
  A row is in conflict when it has the same document and tag. A new row needs its document
  to exist (the foreign key of \<^verbatim>\<open>document_tags.document_id\<close>); when it does not, the
  statement fails and the whole call is rolled back.
\<close>

definition conflicts :: "uuid \<Rightarrow> uuid \<Rightarrow> document_tag \<Rightarrow> bool" where
  "conflicts doc_id tag_id dt = (dt_document_id dt = doc_id \<and> dt_tag_id dt = tag_id)"

definition add_document_tag ::
  "database \<Rightarrow> uuid \<Rightarrow> string \<Rightarrow> real \<Rightarrow> string \<Rightarrow> string + database" where
  "add_document_tag db doc_id tag_name tag_confidence tag_source =
     (case get_or_create_tag db tag_name None None of
        (tag_id, db1) \<Rightarrow>
          if \<exists>dt \<in> set (document_tags db1). conflicts doc_id tag_id dt
          then Inr (db1\<lparr> document_tags :=
                 map (\<lambda>dt. if conflicts doc_id tag_id dt
                            then dt\<lparr> dt_confidence := max (dt_confidence dt) tag_confidence,
                                    dt_source := (if dt_confidence dt < tag_confidence
                                                  then tag_source else dt_source dt) \<rparr>
                            else dt)
                     (document_tags db1) \<rparr>)
          else if \<not> (\<exists>d \<in> set (documents db1). d_id d = doc_id)
          then Inl ''insert or update on table document_tags violates foreign key constraint''
          else Inr (db1\<lparr> document_tags := document_tags db1 @
                           [\<lparr> dt_id = next_uuid db1, dt_document_id = doc_id, dt_tag_id = tag_id,
                              dt_confidence = tag_confidence, dt_source = tag_source \<rparr>],
                         next_uuid := Suc (next_uuid db1) \<rparr>))"

text \<open>The update of one document row: \<^verbatim>\<open>UPDATE documents SET ... WHERE id = doc_id\<close>.\<close>

definition update_document :: "uuid \<Rightarrow> (document \<Rightarrow> document) \<Rightarrow> database \<Rightarrow> database" where
  "update_document doc_id f db =
     db\<lparr> documents := map (\<lambda>d. if d_id d = doc_id then f d else d) (documents db) \<rparr>"





section \<open>Capabilities and the state of the server\<close>

text \<open>
  An uploaded \<^verbatim>\<open>File\<close>, and an entry of the \<^verbatim>\<open>files\<close> field of the form data, which is a
  file or a plain string.
\<close>

record File =
  f_name :: string
  f_type :: string
  f_size :: nat
  f_text :: string

datatype form_entry = FileEntry File | StringEntry string

record upload_form =
  uf_files :: "form_entry list"
  uf_userId :: "string option"

text \<open>
  The structured image analysis requested by the vision prompt. A field the response leaves
  out is \<open>None\<close>; fields of another JSON type than the prompt asks for are outside the model.
\<close>

record analysis =
  a_extracted_text :: "string option"
  a_main_description :: "string option"
  a_objects :: "string list option"
  a_scene_type :: "string option"
  a_activities :: "string list option"
  a_tags :: "string list option"
  a_categories :: "string list option"
  a_confidence :: "real option"
  a_searchable_content :: "string option"

record document_summary =
  ds_title :: string
  ds_summary :: string

text \<open>
  The collaborators the server actions call, as functions: a failure (a thrown exception or
  a returned \<^verbatim>\<open>error\<close> object) is \<open>Inl\<close> of its message, or \<open>Some\<close> of it where nothing else is
  returned. \<open>clock_now\<close> stands for \<^verbatim>\<open>Date.now()\<close> and \<^verbatim>\<open>new Date()\<close>, \<open>elapsed_ms\<close> for the
  measured duration of a search, \<open>storage_upload\<close> for the upload to the bucket (it sees
  the objects already stored, since \<^verbatim>\<open>upsert: false\<close> rejects a key in use), \<open>splitter\<close> for the \<^verbatim>\<open>RecursiveCharacterTextSplitter\<close> with
  \<^verbatim>\<open>chunkSize: 1000, chunkOverlap: 200\<close> (the page content of each chunk with the metadata
  the splitter adds), \<open>JSON_parse\<close> for \<^verbatim>\<open>JSON.parse\<close> read as an analysis.
\<close>

record capabilities =
  clock_now :: timestamp
  elapsed_ms :: nat
  storage_upload :: "(string \<times> File) list \<Rightarrow> string \<Rightarrow> File \<Rightarrow> string option"
  getPublicUrl :: "string \<Rightarrow> string"
  documents_insert :: "document \<Rightarrow> string option"
  vision_invoke :: "string \<Rightarrow> string + string"
  JSON_parse :: "string \<Rightarrow> analysis option"
  splitter :: "string \<Rightarrow> (string \<times> metadata) list"
  embedQuery :: "string \<Rightarrow> string + vector"
  summary_invoke :: "string \<Rightarrow> string + document_summary"
  search_queries_insert :: "search_query \<Rightarrow> string option"
  rpc_enhanced_similarity_search ::
    "database \<Rightarrow> vector \<Rightarrow> string \<Rightarrow> real \<Rightarrow> int \<Rightarrow> string list option \<Rightarrow> string list option \<Rightarrow>
     string + search_row list"
  rpc_similarity_search ::
    "database \<Rightarrow> vector \<Rightarrow> string \<Rightarrow> real \<Rightarrow> int \<Rightarrow> string + search_row list"

text \<open>
  The background work an upload starts without awaiting it, one task per document.
\<close>

datatype task =
    ProcessImage uuid string
  | ProcessTextFile uuid File
  | ProcessDocument uuid File

record world =
  w_db :: database
  w_storage :: "(string \<times> File) list"
  w_tasks :: "task list"

section \<open>Upload (\<^verbatim>\<open>uploadDocuments\<close>, and \<^verbatim>\<open>handleFileSelect\<close> of the upload component)\<close>

record upload_response =
  ur_success :: bool
  ur_timestamp :: timestamp
  ur_error :: "string option"
  ur_document :: "document option"
  ur_processing_started :: "bool option"

fun decimal :: "nat \<Rightarrow> string" where
  "decimal n =
     (if n < 10 then [''0123456789'' ! n]
      else decimal (n div 10) @ [''0123456789'' ! (n mod 10)])"

declare decimal.simps [simp del]

definition is_alnum :: "char \<Rightarrow> bool" where
  "is_alnum c =
     (c \<in> set ''abcdefghijklmnopqrstuvwxyzABCDEFGHIJKLMNOPQRSTUVWXYZ0123456789'')"

text \<open>\<^verbatim>\<open>file.name.replace(/[^a-zA-Z0-9.-]/g, '_')\<close>\<close>

definition sanitize :: "string \<Rightarrow> string" where
  "sanitize name =
     map (\<lambda>c. if is_alnum c \<or> c = CHR ''.'' \<or> c = CHR ''-'' then c else CHR ''_'') name"

definition startsWith :: "string \<Rightarrow> string \<Rightarrow> bool" where
  "startsWith s p = (take (length p) s = p)"

definition upload_failure :: "capabilities \<Rightarrow> string \<Rightarrow> upload_response" where
  "upload_failure env msg =
     \<lparr> ur_success = False, ur_timestamp = clock_now env, ur_error = Some msg,
       ur_document = None, ur_processing_started = None \<rparr>"

text \<open>
  The body of the \<^verbatim>\<open>for (const file of validatedData.files)\<close> loop. A storage or database
  error throws out of the loop; what the earlier iterations stored and started stays.
\<close>

fun upload_loop ::
  "capabilities \<Rightarrow> string \<Rightarrow> File list \<Rightarrow> document list \<Rightarrow> world \<Rightarrow> (string + document list) \<times> world" where
  "upload_loop env user_id [] uploadResults w = (Inr uploadResults, w)"
| "upload_loop env user_id (file # files) uploadResults w =
     (let fileName = decimal (clock_now env) @ ''-'' @ sanitize (f_name file) in
      case storage_upload env (w_storage w) fileName file of
        Some msg \<Rightarrow> (Inl (''Storage upload failed: '' @ msg), w)
      | None \<Rightarrow>
          (let w1 = w\<lparr> w_storage := w_storage w @ [(fileName, file)] \<rparr>;
               publicUrl = getPublicUrl env fileName;
               isImage = startsWith (f_type file) ''image/'';
               isText = (f_type file = ''text/plain'');
               fileCategory = (if isImage then ''image'' else if isText then ''text'' else ''document'');
               documentData =
                 \<lparr> d_id = next_uuid (w_db w1),
                   d_user_id = user_id,
                   d_filename = fileName,
                   d_original_filename = f_name file,
                   d_storage_path = fileName,
                   d_public_url = Some publicUrl,
                   d_file_type = fileCategory,
                   d_file_size = f_size file,
                   d_mime_type = f_type file,
                   d_status = Uploaded,
                   d_processing_error = None,
                   d_extracted_text = None,
                   d_title = None,
                   d_description = None,
                   d_content_type = None,
                   d_confidence_score = None,
                   d_word_count = None,
                   d_character_count = None,
                   d_auto_tags = None,
                   d_created_at = clock_now env,
                   d_processed_at = None \<rparr>
           in case documents_insert env documentData of
                Some msg \<Rightarrow> (Inl (''Database insert failed: '' @ msg), w1)
              | None \<Rightarrow>
                  upload_loop env user_id files (uploadResults @ [documentData])
                    (w1\<lparr> w_db := (w_db w1)\<lparr> documents := documents (w_db w1) @ [documentData],
                                            next_uuid := Suc (next_uuid (w_db w1)) \<rparr>,
                         w_tasks := w_tasks w1 @
                           [if isImage then ProcessImage (d_id documentData) publicUrl
                            else if isText then ProcessTextFile (d_id documentData) file
                            else ProcessDocument (d_id documentData) file] \<rparr>)))"

definition instanceof_File :: "form_entry list \<Rightarrow> File list" where
  "instanceof_File entries = concat (map (\<lambda>e. case e of FileEntry f \<Rightarrow> [f] | StringEntry _ \<Rightarrow> []) entries)"

definition uploadDocuments :: "capabilities \<Rightarrow> upload_form \<Rightarrow> world \<Rightarrow> upload_response \<times> world" where
  "uploadDocuments env formData w =
     (if uf_files formData = [] then (upload_failure env ''No files provided'', w)
      else case uf_userId formData of
        None \<Rightarrow> (upload_failure env ''User ID is required'', w)
      | Some userId \<Rightarrow>
          if userId = [] then (upload_failure env ''User ID is required'', w)
          else (case upload_loop env userId (instanceof_File (uf_files formData)) [] w of
                  (Inl msg, w') \<Rightarrow> (upload_failure env msg, w')
                | (Inr uploadResults, w') \<Rightarrow>
                    (\<lparr> ur_success = True, ur_timestamp = clock_now env, ur_error = None,
                       ur_document = (case uploadResults of [] \<Rightarrow> None | d # _ \<Rightarrow> Some d),
                       ur_processing_started = Some True \<rparr>, w')))"

text \<open>
  The upload component: \<^verbatim>\<open>handleFileSelect\<close> drops each file above \<^verbatim>\<open>maxSize\<close> with an
  alert and passes the others to \<^verbatim>\<open>uploadFile\<close>, which calls the server action once the
  session has a user id. The outcome lists the alerts shown and the response, if a call
  was made.
\<close>

definition maxSize :: nat where
  "maxSize = 10 * 1024 * 1024"

record client_outcome =
  co_alerts :: "string list"
  co_response :: "upload_response option"

definition uploadFile ::
  "capabilities \<Rightarrow> string option \<Rightarrow> File list \<Rightarrow> world \<Rightarrow> client_outcome \<times> world" where
  "uploadFile env userId selectedFiles w =
     (if userId = None \<or> userId = Some []
      then (\<lparr> co_alerts = [''Please wait while we initialize your session...''],
              co_response = None \<rparr>, w)
      else (case uploadDocuments env
                   \<lparr> uf_files = map FileEntry selectedFiles, uf_userId = userId \<rparr> w of
              (response, w') \<Rightarrow> (\<lparr> co_alerts = [], co_response = Some response \<rparr>, w')))"

definition handleFileSelect ::
  "capabilities \<Rightarrow> string option \<Rightarrow> File list option \<Rightarrow> world \<Rightarrow> client_outcome \<times> world" where
  "handleFileSelect env userId selectedFiles w =
     (case selectedFiles of
        None \<Rightarrow> (\<lparr> co_alerts = [], co_response = None \<rparr>, w)
      | Some fs \<Rightarrow>
          (let validFiles = filter (\<lambda>f. \<not> maxSize < f_size f) fs;
               alerts = map (\<lambda>f. ''File '' @ f_name f @ '' is too large. Maximum size is 10MB.'')
                            (filter (\<lambda>f. maxSize < f_size f) fs)
           in if validFiles \<noteq> []
              then (case uploadFile env userId validFiles w of
                      (out, w') \<Rightarrow> (out\<lparr> co_alerts := alerts @ co_alerts out \<rparr>, w'))
              else (\<lparr> co_alerts = alerts, co_response = None \<rparr>, w)))"

text \<open>The document a task works on.\<close>

definition task_document :: "task \<Rightarrow> uuid" where
  "task_document t =
     (case t of ProcessImage documentId _ \<Rightarrow> documentId
      | ProcessTextFile documentId _ \<Rightarrow> documentId
      | ProcessDocument documentId _ \<Rightarrow> documentId)"

section \<open>Text helpers of the pipelines\<close>












section \<open>Chunk creation (\<^verbatim>\<open>createChunksForDocument\<close>)\<close>





section \<open>The three pipelines\<close>











text \<open>
  \<^verbatim>\<open>supabase.rpc('add_document_tag', ...)\<close>: the pipeline does not look at the result, so a
  failed call leaves the store as it was.
\<close>

definition rpc_add_document_tag :: "uuid \<Rightarrow> string \<Rightarrow> real \<Rightarrow> string \<Rightarrow> database \<Rightarrow> database" where
  "rpc_add_document_tag doc_id tag_name tag_confidence tag_source db =
     (case add_document_tag db doc_id tag_name tag_confidence tag_source of
        Inl _ \<Rightarrow> db | Inr db' \<Rightarrow> db')"










definition processed_at_iff :: "document \<Rightarrow> bool" where
  "processed_at_iff d = (d_processed_at d \<noteq> None \<longleftrightarrow> d_status d = Processed)"

text \<open>The rows of the chunks of one document, in the order of their insertion.\<close>

definition chunks_of :: "uuid \<Rightarrow> database \<Rightarrow> document_chunk list" where
  "chunks_of documentId db = filter (\<lambda>dc. dc_document_id dc = documentId) (document_chunks db)"

text \<open>
  The row at position \<open>k\<close> of the documents table, while a pipeline works on the document
  \<open>documentId\<close>: its \<^verbatim>\<open>processed_at\<close> agrees with its status, and it has the status \<open>s\<close> when it is
  the row of that document.
\<close>

definition at_status :: "uuid \<Rightarrow> nat \<Rightarrow> doc_status \<Rightarrow> database \<Rightarrow> bool" where
  "at_status documentId k s db =
     (k < length (documents db) \<and> processed_at_iff (documents db ! k)
      \<and> (d_id (documents db ! k) = documentId \<longrightarrow> d_status (documents db ! k) = s))"

section \<open>Search (\<^verbatim>\<open>searchDocuments\<close>)\<close>















text \<open>
  The rows of \<^verbatim>\<open>search_results\<close>, ranked from 1 in the order returned, in one insert;
  \<^verbatim>\<open>similarity_score\<close> is \<^verbatim>\<open>NOT NULL\<close>, so a row without a similarity makes the insert fail,
  which the action does not look at.
\<close>

definition record_search_results :: "uuid \<Rightarrow> search_row list \<Rightarrow> database \<Rightarrow> database" where
  "record_search_results query_id searchResults db =
     (if searchResults = [] \<or> (\<exists>r \<in> set searchResults. r_similarity r = None) then db
      else db\<lparr> search_results := search_results db @
                  map (\<lambda>ir. \<lparr> sr_search_query_id = query_id,
                              sr_chunk_id = r_chunk_id (snd ir),
                              sr_similarity_score = r_similarity (snd ir),
                              sr_rank_position = fst ir + 1 \<rparr>)
                      (enumerate 0 searchResults) \<rparr>)"






section \<open>Concrete inputs\<close>

text \<open>
  A small store, files and capabilities on which the theorems below are instantiated.
  The distance of the examples is 1 minus the dot product, the cosine distance of vectors
  of length one.
\<close>

fun dot :: "vector \<Rightarrow> vector \<Rightarrow> real" where
  "dot (x # xs) (y # ys) = x * y + dot xs ys"
| "dot _ _ = 0"

definition example_cd :: "vector \<Rightarrow> vector \<Rightarrow> real" where
  "example_cd a b = 1 - dot a b"

definition example_user :: string where
  "example_user = ''00000000-0000-4000-8000-000000000001''"

definition example_document :: document where
  "example_document =
     \<lparr> d_id = 1, d_user_id = example_user,
       d_filename = ''1700000000000-notes.txt'', d_original_filename = ''notes.txt'',
       d_storage_path = ''1700000000000-notes.txt'',
       d_public_url = Some ''https://store.example/fainder/1700000000000-notes.txt'',
       d_file_type = ''text'', d_file_size = 11, d_mime_type = ''text/plain'',
       d_status = Uploaded, d_processing_error = None, d_extracted_text = None,
       d_title = None, d_description = None, d_content_type = None,
       d_confidence_score = None, d_word_count = None, d_character_count = None,
       d_auto_tags = None, d_created_at = 1700000000000, d_processed_at = None \<rparr>"

definition fresh_db :: database where
  "fresh_db =
     \<lparr> documents = [example_document], document_chunks = [], tags = [], document_tags = [],
       search_queries = [], search_results = [], next_uuid = 2 \<rparr>"

definition example_chunk :: "uuid \<Rightarrow> nat \<Rightarrow> string \<Rightarrow> vector option \<Rightarrow> document_chunk" where
  "example_chunk i n txt e =
     \<lparr> dc_id = i, dc_document_id = 1, dc_user_id = Some example_user, dc_chunk_index = n,
       dc_chunk_text = txt, dc_metadata = [], dc_word_count = 1, dc_character_count = length txt,
       dc_embedding = e, dc_embedded_at = map_option (\<lambda>_. 1700000000000) e \<rparr>"

definition searchable_db :: database where
  "searchable_db =
     \<lparr> documents = [example_document\<lparr> d_status := Processed, d_content_type := Some ''text'',
                                      d_auto_tags := Some [''cat''],
                                      d_processed_at := Some 1700000000000 \<rparr>],
       document_chunks = [example_chunk 2 0 ''far'' (Some [3/5, 4/5]),
                          example_chunk 3 1 ''near'' (Some [1, 0]),
                          example_chunk 4 2 ''pending'' None],
       tags = [\<lparr> t_id = 5, t_name = ''cat'', t_category = None, t_description = None \<rparr>],
       document_tags = [\<lparr> dt_id = 6, dt_document_id = 1, dt_tag_id = 5,
                          dt_confidence = 0.5, dt_source = ''ai'' \<rparr>],
       search_queries = [], search_results = [], next_uuid = 7 \<rparr>"

definition example_env :: capabilities where
  "example_env =
     \<lparr> clock_now = 1700000000000,
       elapsed_ms = 12,
       storage_upload = (\<lambda>stored key f. if key \<in> set (map fst stored)
                                          then Some ''The resource already exists'' else None),
       getPublicUrl = (\<lambda>key. ''https://store.example/fainder/'' @ key),
       documents_insert = (\<lambda>d. None),
       vision_invoke = (\<lambda>url. Inr ''**main_description:** A cat on a sofa''),
       JSON_parse = (\<lambda>s. if s = ''{}''
                          then Some \<lparr> a_extracted_text = None, a_main_description = None,
                                      a_objects = None, a_scene_type = None,
                                      a_activities = None, a_tags = None, a_categories = None,
                                      a_confidence = None, a_searchable_content = None \<rparr>
                          else None),
       splitter = (\<lambda>t. [(t, [])]),
       embedQuery = (\<lambda>t. Inr [1, 0]),
       summary_invoke = (\<lambda>t. Inr \<lparr> ds_title = ''Notes'', ds_summary = ''Some notes'' \<rparr>),
       search_queries_insert = (\<lambda>q. None),
       rpc_enhanced_similarity_search = enhanced_similarity_search example_cd,
       rpc_similarity_search = similarity_search example_cd \<rparr>"


definition world0 :: world where
  "world0 = \<lparr> w_db = fresh_db, w_storage = [], w_tasks = [] \<rparr>"

definition text_file :: File where
  "text_file = \<lparr> f_name = ''hello.txt'', f_type = ''text/plain'', f_size = 11, f_text = ''hello world'' \<rparr>"

definition image_file :: File where
  "image_file = \<lparr> f_name = ''cat.png'', f_type = ''image/png'', f_size = 2048, f_text = [] \<rparr>"

definition big_file :: File where
  "big_file = \<lparr> f_name = ''scan.pdf'', f_type = ''application/pdf'', f_size = 20971520, f_text = [] \<rparr>"

definition two_files_form :: upload_form where
  "two_files_form =
     \<lparr> uf_files = [FileEntry text_file, FileEntry image_file], uf_userId = Some example_user \<rparr>"

definition big_file_form :: upload_form where
  "big_file_form = \<lparr> uf_files = [FileEntry big_file], uf_userId = Some example_user \<rparr>"





section \<open>Properties of the similarity lookup\<close>

lemma enhanced_where_iff:
  "enhanced_where cd q u t cts rts jr = Some True \<longleftrightarrow> qualifies cd q u t cts rts jr"
  by (auto simp: enhanced_where_def basic_where_def qualifies_def sql_and_def sql_or_def
      sql_eq_def sql_gt_def sql_is_null_def sql_is_not_null_def sql_any_def sql_overlap_def
      similarity_def distance_def split: option.splits if_splits)

lemma basic_where_iff:
  "basic_where cd q u t jr = Some True \<longleftrightarrow> qualifies cd q u t None None jr"
  by (auto simp: basic_where_def qualifies_def sql_and_def
      sql_eq_def sql_gt_def sql_is_not_null_def
      similarity_def distance_def split: option.splits if_splits)




lemma length_order_by_distance: "length (order_by_distance cd q rows) = length rows"
  by (simp add: order_by_distance_def)







lemma enhanced_similarity_search_example:
  "map_sum id (map (\<lambda>r. (r_chunk_id r, r_similarity r)))
     (enhanced_similarity_search example_cd searchable_db [1, 0] example_user 0.5 10
        (Some [''text'']) (Some [''cat'']))
   = Inr [(3, Some 1), (2, Some (3/5))]"
  by (simp add: enhanced_similarity_search_def sql_limit_def order_by_distance_def joined_def
      searchable_db_def example_document_def example_chunk_def example_user_def example_cd_def
      enhanced_where_def basic_where_def sql_and_def sql_or_def sql_eq_def sql_gt_def
      sql_is_null_def sql_is_not_null_def sql_any_def sql_overlap_def similarity_def
      distance_def nulls_last_def select_row_def less_eq_prod_def less_prod_def)

lemma length_filter_mono:
  "(\<And>x. x \<in> set xs \<Longrightarrow> P x \<Longrightarrow> Q x) \<Longrightarrow> length (filter P xs) \<le> length (filter Q xs)"
  by (induction xs) auto

lemma qualifies_threshold_mono:
  "t1 \<le> t2 \<Longrightarrow> qualifies cd q u t2 cts rts jr \<Longrightarrow> qualifies cd q u t1 cts rts jr"
  by (auto simp: qualifies_def split: option.splits)

lemma result_count_enhanced:
  "result_count (enhanced_similarity_search cd db q u t n cts rts) =
     (if n < 0 then 0 else min (length (filter (qualifies cd q u t cts rts) (joined db))) (nat n))"
  by (simp add: result_count_def enhanced_similarity_search_def sql_limit_def enhanced_where_iff
      length_order_by_distance)

lemma result_count_basic:
  "result_count (similarity_search cd db q u t n) =
     (if n < 0 then 0 else min (length (filter (qualifies cd q u t None None) (joined db))) (nat n))"
  by (simp add: result_count_def similarity_search_def sql_limit_def basic_where_iff
      length_order_by_distance)

text \<open>
  C6. For a fixed query embedding, user, store and limit, a higher threshold never gives
  more rows, in the basic and in the enhanced lookup (a lookup that fails gives none).
\<close>

theorem threshold_antitone:
  assumes "t1 \<le> t2"
  shows "result_count (similarity_search cd db q u t2 n) \<le> result_count (similarity_search cd db q u t1 n)
    \<and> result_count (enhanced_similarity_search cd db q u t2 n cts rts)
        \<le> result_count (enhanced_similarity_search cd db q u t1 n cts rts)"
proof -
  have "length (filter (qualifies cd q u t2 c r) (joined db))
      \<le> length (filter (qualifies cd q u t1 c r) (joined db))" for c r
    by (rule length_filter_mono) (rule qualifies_threshold_mono [OF assms])
  then show ?thesis
    unfolding result_count_enhanced result_count_basic
    by (auto simp: min_le_iff_disj)
qed

theorem threshold_antitone_witness:
  "(0.5::real) \<le> 0.9
   \<and> result_count (similarity_search example_cd searchable_db [1, 0] example_user 0.9 10)
       \<le> result_count (similarity_search example_cd searchable_db [1, 0] example_user 0.5 10)
   \<and> result_count (enhanced_similarity_search example_cd searchable_db [1, 0] example_user 0.9 10
         None (Some [''cat'']))
       \<le> result_count (enhanced_similarity_search example_cd searchable_db [1, 0] example_user 0.5 10
         None (Some [''cat'']))"
  using threshold_antitone [of "0.5" "0.9" example_cd searchable_db "[1, 0]" example_user 10
      None "Some [''cat'']"]
  by simp


section \<open>Properties of the tag functions\<close>








lemma add_document_tag_example:
  "add_document_tag searchable_db 1 ''Cat'' 0.9 ''vision''
   = Inr (searchable_db\<lparr> document_tags :=
            [\<lparr> dt_id = 6, dt_document_id = 1, dt_tag_id = 5,
               dt_confidence = 0.9, dt_source = ''vision'' \<rparr>] \<rparr>)"
  by (simp add: add_document_tag_def get_or_create_tag_def searchable_db_def LOWER_def
      lower_char_def conflicts_def)


section \<open>Properties of the upload\<close>

lemma upload_loop_success:
  "upload_loop env u files acc w = (Inr results, w') \<Longrightarrow>
   \<exists>docs ts blobs.
      results = acc @ docs
    \<and> length docs = length files
    \<and> documents (w_db w') = documents (w_db w) @ docs
    \<and> w_tasks w' = w_tasks w @ ts
    \<and> map task_document ts = map d_id docs
    \<and> map d_original_filename docs = map f_name files
    \<and> (\<forall>d \<in> set docs. d_status d = Uploaded \<and> d_processed_at d = None)
    \<and> w_storage w' = w_storage w @ blobs
    \<and> map snd blobs = files"
proof (induction files arbitrary: acc w)
  case Nil
  then show ?case by simp
next
  case (Cons f fs)
  let ?fileName = "decimal (clock_now env) @ ''-'' @ sanitize (f_name f)"
  let ?publicUrl = "getPublicUrl env ?fileName"
  let ?isImage = "startsWith (f_type f) ''image/''"
  let ?isText = "f_type f = ''text/plain''"
  let ?doc = "\<lparr> d_id = next_uuid (w_db w), d_user_id = u, d_filename = ?fileName,
      d_original_filename = f_name f, d_storage_path = ?fileName,
      d_public_url = Some ?publicUrl,
      d_file_type = (if ?isImage then ''image'' else if ?isText then ''text'' else ''document''),
      d_file_size = f_size f, d_mime_type = f_type f, d_status = Uploaded,
      d_processing_error = None, d_extracted_text = None, d_title = None,
      d_description = None, d_content_type = None, d_confidence_score = None,
      d_word_count = None, d_character_count = None, d_auto_tags = None,
      d_created_at = clock_now env, d_processed_at = None \<rparr>"
  let ?t = "if ?isImage then ProcessImage (next_uuid (w_db w)) ?publicUrl
            else if ?isText then ProcessTextFile (next_uuid (w_db w)) f
            else ProcessDocument (next_uuid (w_db w)) f"
  let ?w2 = "w\<lparr> w_storage := w_storage w @ [(?fileName, f)],
               w_db := (w_db w)\<lparr> documents := documents (w_db w) @ [?doc],
                                   next_uuid := Suc (next_uuid (w_db w)) \<rparr>,
               w_tasks := w_tasks w @ [?t] \<rparr>"
  from Cons.prems have rec: "upload_loop env u fs (acc @ [?doc]) ?w2 = (Inr results, w')"
    by (simp add: Let_def split: option.splits split del: if_split cong: if_cong)
  from Cons.IH [OF rec] obtain docs ts blobs where
    IH: "results = (acc @ [?doc]) @ docs" "length docs = length fs"
      "documents (w_db w') = documents (w_db ?w2) @ docs"
      "w_tasks w' = w_tasks ?w2 @ ts" "map task_document ts = map d_id docs"
      "map d_original_filename docs = map f_name fs"
      "\<forall>d \<in> set docs. d_status d = Uploaded \<and> d_processed_at d = None"
      "w_storage w' = w_storage ?w2 @ blobs" "map snd blobs = fs"
    by blast
  have t: "task_document ?t = next_uuid (w_db w)"
    by (simp add: task_document_def)
  show ?case
    apply (rule exI [of _ "?doc # docs"])
    apply (rule exI [of _ "?t # ts"])
    apply (rule exI [of _ "(?fileName, f) # blobs"])
    using IH t by simp
qed

lemma upload_loop_storage:
  "upload_loop env u files acc w = (res, w') \<Longrightarrow>
   \<exists>blobs. w_storage w' = w_storage w @ blobs \<and> set (map snd blobs) \<subseteq> set files"
proof (induction files arbitrary: acc w)
  case Nil
  then show ?case by simp
next
  case (Cons f fs)
  let ?fileName = "decimal (clock_now env) @ ''-'' @ sanitize (f_name f)"
  show ?case
  proof (cases "storage_upload env (w_storage w) ?fileName f")
    case (Some msg)
    with Cons.prems show ?thesis by (simp add: Let_def)
  next
    case None
    let ?w1 = "w\<lparr> w_storage := w_storage w @ [(?fileName, f)] \<rparr>"
    show ?thesis
    proof (cases "\<exists>acc2 w2. w_storage w2 = w_storage ?w1 \<and> upload_loop env u fs acc2 w2 = (res, w')")
      case True
      then obtain acc2 w2 where a: "w_storage w2 = w_storage ?w1"
        "upload_loop env u fs acc2 w2 = (res, w')" by blast
      from Cons.IH [OF a(2)] obtain blobs where
        "w_storage w' = w_storage w2 @ blobs" "set (map snd blobs) \<subseteq> set fs" by blast
      then show ?thesis using a(1) by (intro exI [of _ "(?fileName, f) # blobs"]) auto
    next
      case False
      with Cons.prems None have "w_storage w' = w_storage ?w1"
        by (auto simp: Let_def split: option.splits)
      then show ?thesis by (intro exI [of _ "[(?fileName, f)]"]) auto
    qed
  qed
qed

lemma instanceof_File_map: "instanceof_File (map FileEntry fs) = fs"
  by (induction fs) (auto simp: instanceof_File_def)

lemma uploadDocuments_storage:
  assumes "uploadDocuments env formData w = (response, w')"
  shows "\<exists>blobs. w_storage w' = w_storage w @ blobs
           \<and> set (map snd blobs) \<subseteq> set (instanceof_File (uf_files formData))"
proof (cases "uf_files formData = [] \<or> uf_userId formData = None \<or> uf_userId formData = Some []")
  case True
  with assms have "w' = w"
    by (auto simp: uploadDocuments_def split: option.splits if_splits)
  then show ?thesis by simp
next
  case False
  then obtain userId where u: "uf_userId formData = Some userId" "userId \<noteq> []" by auto
  obtain res w2 where l: "upload_loop env userId (instanceof_File (uf_files formData)) [] w = (res, w2)"
    by (cases "upload_loop env userId (instanceof_File (uf_files formData)) [] w")
  with assms False u have "w' = w2"
    by (auto simp: uploadDocuments_def split: sum.splits)
  with upload_loop_storage [OF l] show ?thesis by simp
qed

lemma handleFileSelect_client:
  assumes "handleFileSelect env userId (Some fs) w = (out, w')"
  shows "(\<exists>blobs. w_storage w' = w_storage w @ blobs
            \<and> (\<forall>b \<in> set blobs. f_size (snd b) \<le> maxSize \<and> snd b \<in> set fs))
       \<and> (\<forall>f \<in> set fs. maxSize < f_size f \<longrightarrow>
            (''File '' @ f_name f @ '' is too large. Maximum size is 10MB.'') \<in> set (co_alerts out))"
proof -
  let ?valid = "filter (\<lambda>f. \<not> maxSize < f_size f) fs"
  let ?alerts = "map (\<lambda>f. ''File '' @ f_name f @ '' is too large. Maximum size is 10MB.'')
                     (filter (\<lambda>f. maxSize < f_size f) fs)"
  have al: "set ?alerts \<subseteq> set (co_alerts out)"
    using assms
    by (auto simp: handleFileSelect_def uploadFile_def Let_def split: if_splits prod.splits)
  have st: "\<exists>blobs. w_storage w' = w_storage w @ blobs \<and> set (map snd blobs) \<subseteq> set ?valid"
  proof (cases "?valid \<noteq> [] \<and> \<not> (userId = None \<or> userId = Some [])")
    case False
    with assms have "w' = w"
      by (auto simp: handleFileSelect_def uploadFile_def Let_def split: if_splits prod.splits)
    then show ?thesis by simp
  next
    case True
    obtain response w2 where
      up: "uploadDocuments env \<lparr> uf_files = map FileEntry ?valid, uf_userId = userId \<rparr> w = (response, w2)"
      by (cases "uploadDocuments env \<lparr> uf_files = map FileEntry ?valid, uf_userId = userId \<rparr> w")
    with assms True have "w' = w2"
      by (auto simp: handleFileSelect_def uploadFile_def Let_def split: if_splits prod.splits)
    with uploadDocuments_storage [OF up] show ?thesis
      by (simp add: instanceof_File_map)
  qed
  from st obtain blobs where b: "w_storage w' = w_storage w @ blobs"
    "set (map snd blobs) \<subseteq> set ?valid" by blast
  have "\<forall>b \<in> set blobs. f_size (snd b) \<le> maxSize \<and> snd b \<in> set fs"
    using b(2) by auto
  with b(1) al show ?thesis by auto
qed

text \<open>
  C8, as the code has it. \<^verbatim>\<open>uploadDocuments\<close> rejects an empty file set and a missing or
  empty user id with the message of the check, and leaves the bucket, the tables and the
  started tasks as they were. It does not look at the size of a file: the upload component
  drops every file above 10 MiB with an alert before it calls the action, so what a
  selection adds to the bucket are selected files of at most that size.
\<close>

theorem uploadDocuments_validation:
  "(uf_files formData = [] \<longrightarrow>
      uploadDocuments env formData w = (upload_failure env ''No files provided'', w))
   \<and> (uf_files formData2 \<noteq> [] \<and> (uf_userId formData2 = None \<or> uf_userId formData2 = Some []) \<longrightarrow>
      uploadDocuments env2 formData2 w2 = (upload_failure env2 ''User ID is required'', w2))
   \<and> (handleFileSelect env3 userId (Some fs) w3 = (out, w') \<longrightarrow>
        (\<exists>blobs. w_storage w' = w_storage w3 @ blobs
            \<and> (\<forall>b \<in> set blobs. f_size (snd b) \<le> maxSize \<and> snd b \<in> set fs))
        \<and> (\<forall>f \<in> set fs. maxSize < f_size f \<longrightarrow>
              (''File '' @ f_name f @ '' is too large. Maximum size is 10MB.'')
                \<in> set (co_alerts out)))"
  using handleFileSelect_client [where env = env3 and userId = userId and fs = fs and w = w3
      and out = out and w' = w']
  by (auto simp: uploadDocuments_def split: option.splits)

lemma handleFileSelect_example:
  "co_alerts (fst (handleFileSelect example_env (Some example_user) (Some [big_file, text_file]) world0))
     = [''File scan.pdf is too large. Maximum size is 10MB.'']
   \<and> map snd (w_storage (snd (handleFileSelect example_env (Some example_user)
                                  (Some [big_file, text_file]) world0))) = [text_file]"
  by (simp add: handleFileSelect_def uploadFile_def uploadDocuments_def maxSize_def
      big_file_def text_file_def world0_def fresh_db_def example_env_def
      example_user_def instanceof_File_def Let_def decimal.simps sanitize_def
      is_alnum_def startsWith_def)

theorem uploadDocuments_validation_witness:
  "uploadDocuments example_env \<lparr> uf_files = [], uf_userId = Some example_user \<rparr> world0
     = (upload_failure example_env ''No files provided'', world0)
   \<and> uploadDocuments example_env \<lparr> uf_files = [FileEntry text_file], uf_userId = None \<rparr> world0
     = (upload_failure example_env ''User ID is required'', world0)
   \<and> (\<exists>blobs. w_storage (snd (handleFileSelect example_env (Some example_user)
                                     (Some [big_file, text_file]) world0))
                   = w_storage world0 @ blobs
          \<and> list_all (\<lambda>b. f_size (snd b) \<le> maxSize) blobs \<and> map snd blobs = [text_file])
   \<and> (''File '' @ f_name big_file @ '' is too large. Maximum size is 10MB.'')
       \<in> set (co_alerts (fst (handleFileSelect example_env (Some example_user)
                                   (Some [big_file, text_file]) world0)))"
proof -
  let ?h = "handleFileSelect example_env (Some example_user) (Some [big_file, text_file]) world0"
  let ?fd1 = "\<lparr> uf_files = [], uf_userId = Some example_user \<rparr>"
  let ?fd2 = "\<lparr> uf_files = [FileEntry text_file], uf_userId = None \<rparr>"
  note inst = uploadDocuments_validation [where formData = ?fd1
      and env = example_env and w = world0 and ?formData2.0 = ?fd2
      and ?env2.0 = example_env and ?w2.0 = world0
      and ?env3.0 = example_env and userId = "Some example_user" and fs = "[big_file, text_file]"
      and ?w3.0 = world0 and out = "fst ?h" and w' = "snd ?h"]
  have h1: "uf_files ?fd1 = []" by simp
  have h2: "uf_files ?fd2 \<noteq> [] \<and> (uf_userId ?fd2 = None \<or> uf_userId ?fd2 = Some [])" by simp
  have h3: "?h = (fst ?h, snd ?h)" by simp
  have big: "maxSize < f_size big_file" "big_file \<in> set [big_file, text_file]"
    by (simp_all add: maxSize_def big_file_def)
  have a: "uploadDocuments example_env ?fd1 world0
     = (upload_failure example_env ''No files provided'', world0)"
    by (rule mp [OF conjunct1 [OF inst] h1])
  have b: "uploadDocuments example_env ?fd2 world0
     = (upload_failure example_env ''User ID is required'', world0)"
    by (rule mp [OF conjunct1 [OF conjunct2 [OF inst]] h2])
  note c0 = mp [OF conjunct2 [OF conjunct2 [OF inst]] h3]
  from conjunct1 [OF c0] obtain blobs where c: "w_storage (snd ?h) = w_storage world0 @ blobs"
    "\<forall>b \<in> set blobs. f_size (snd b) \<le> maxSize \<and> snd b \<in> set [big_file, text_file]"
    by blast
  have "w_storage world0 = []" by (simp add: world0_def)
  with c(1) conjunct2 [OF handleFileSelect_example] have m: "map snd blobs = [text_file]"
    by simp
  from c(2) have l: "list_all (\<lambda>b. f_size (snd b) \<le> maxSize) blobs"
    by (simp add: list_all_iff)
  from conjunct2 [OF c0] big have al:
    "(''File '' @ f_name big_file @ '' is too large. Maximum size is 10MB.'')
       \<in> set (co_alerts (fst ?h))"
    by blast
  from c(1) l m have "\<exists>blobs. w_storage (snd ?h) = w_storage world0 @ blobs
          \<and> list_all (\<lambda>b. f_size (snd b) \<le> maxSize) blobs \<and> map snd blobs = [text_file]"
    by (intro exI [of _ blobs] conjI)
  with a b al show ?thesis by (intro conjI)
qed

lemma uploadDocuments_big_file:
  "uploadDocuments example_env big_file_form world0
   = (\<lparr> ur_success = True, ur_timestamp = 1700000000000, ur_error = None,
        ur_document = Some (example_document\<lparr> d_id := 2,
           d_filename := ''1700000000000-scan.pdf'', d_original_filename := ''scan.pdf'',
           d_storage_path := ''1700000000000-scan.pdf'',
           d_public_url := Some ''https://store.example/fainder/1700000000000-scan.pdf'',
           d_file_type := ''document'', d_file_size := 20971520,
           d_mime_type := ''application/pdf'' \<rparr>),
        ur_processing_started = Some True \<rparr>,
      \<lparr> w_db = fresh_db\<lparr> documents := [example_document,
             example_document\<lparr> d_id := 2,
               d_filename := ''1700000000000-scan.pdf'', d_original_filename := ''scan.pdf'',
               d_storage_path := ''1700000000000-scan.pdf'',
               d_public_url := Some ''https://store.example/fainder/1700000000000-scan.pdf'',
               d_file_type := ''document'', d_file_size := 20971520,
               d_mime_type := ''application/pdf'' \<rparr>],
           next_uuid := 3 \<rparr>,
        w_storage = [(''1700000000000-scan.pdf'', big_file)],
        w_tasks = [ProcessDocument 2 big_file] \<rparr>)"
  by (simp add: uploadDocuments_def big_file_form_def world0_def fresh_db_def example_env_def
      example_user_def big_file_def instanceof_File_def Let_def decimal.simps sanitize_def
      is_alnum_def startsWith_def example_document_def)

theorem uploadDocuments_oversized_counterexample:
  "maxSize < f_size big_file
   \<and> ur_success (fst (uploadDocuments example_env big_file_form world0))
   \<and> map snd (w_storage (snd (uploadDocuments example_env big_file_form world0))) = [big_file]
   \<and> length (documents (w_db (snd (uploadDocuments example_env big_file_form world0)))) = 2
   \<and> w_tasks (snd (uploadDocuments example_env big_file_form world0)) = [ProcessDocument 2 big_file]"
  by (simp add: uploadDocuments_big_file) (simp add: maxSize_def big_file_def)

lemma hd_Cons_case: "xs \<noteq> [] \<Longrightarrow> (case xs of [] \<Rightarrow> None | d # _ \<Rightarrow> Some d) = Some (hd xs)"
  by (cases xs) auto

text \<open>
  C10. When \<^verbatim>\<open>uploadDocuments\<close> answers with success for a form with N files, N at least 1,
  it has appended one document row per file, in the order of the files and with the status
  uploaded, and has started one task per row; the response carries the first of these rows
  and no other.
\<close>

theorem uploadDocuments_first_document:
  assumes "uploadDocuments env formData w = (response, w')"
    and "ur_success response"
    and "instanceof_File (uf_files formData) \<noteq> []"
  shows "\<exists>docs ts.
       length docs = length (instanceof_File (uf_files formData))
     \<and> documents (w_db w') = documents (w_db w) @ docs
     \<and> w_tasks w' = w_tasks w @ ts
     \<and> map task_document ts = map d_id docs
     \<and> map d_original_filename docs = map f_name (instanceof_File (uf_files formData))
     \<and> (\<forall>d \<in> set docs. d_status d = Uploaded)
     \<and> ur_document response = Some (hd docs)
     \<and> ur_error response = None"
proof -
  let ?files = "instanceof_File (uf_files formData)"
  from assms(1,2) obtain userId results where
    l: "upload_loop env userId ?files [] w = (Inr results, w')"
    and r: "response = \<lparr> ur_success = True, ur_timestamp = clock_now env, ur_error = None,
                ur_document = (case results of [] \<Rightarrow> None | d # _ \<Rightarrow> Some d),
                ur_processing_started = Some True \<rparr>"
    by (auto simp: uploadDocuments_def upload_failure_def
        split: if_splits option.splits sum.splits prod.splits)
  from upload_loop_success [OF l] obtain docs ts blobs where
    d: "results = docs" "length docs = length ?files"
      "documents (w_db w') = documents (w_db w) @ docs"
      "w_tasks w' = w_tasks w @ ts" "map task_document ts = map d_id docs"
      "map d_original_filename docs = map f_name ?files"
      "\<forall>d \<in> set docs. d_status d = Uploaded \<and> d_processed_at d = None"
    by auto
  from d(2) assms(3) have "docs \<noteq> []" by auto
  then have "ur_document response = Some (hd docs)"
    using r d(1) by (simp add: hd_Cons_case)
  with d r show ?thesis by (intro exI [of _ docs] exI [of _ ts]) simp
qed

lemma uploadDocuments_two_files:
  "ur_success (fst (uploadDocuments example_env two_files_form world0))
   \<and> map d_original_filename (documents (w_db (snd (uploadDocuments example_env two_files_form world0))))
       = [''notes.txt'', ''hello.txt'', ''cat.png'']
   \<and> w_tasks (snd (uploadDocuments example_env two_files_form world0))
       = [ProcessTextFile 2 text_file,
          ProcessImage 3 ''https://store.example/fainder/1700000000000-cat.png'']
   \<and> map_option d_original_filename (ur_document (fst (uploadDocuments example_env two_files_form world0)))
       = Some ''hello.txt''"
  by (simp add: uploadDocuments_def two_files_form_def world0_def fresh_db_def example_env_def
      example_user_def text_file_def image_file_def instanceof_File_def Let_def decimal.simps
      sanitize_def is_alnum_def startsWith_def example_document_def)

theorem uploadDocuments_first_document_witness:
  "ur_success (fst (uploadDocuments example_env two_files_form world0))
   \<and> instanceof_File (uf_files two_files_form) = [text_file, image_file]
   \<and> (\<exists>docs ts.
         length docs = 2
       \<and> documents (w_db (snd (uploadDocuments example_env two_files_form world0)))
           = documents (w_db world0) @ docs
       \<and> w_tasks (snd (uploadDocuments example_env two_files_form world0)) = w_tasks world0 @ ts
       \<and> map task_document ts = map d_id docs
       \<and> map d_original_filename docs = [''hello.txt'', ''cat.png'']
       \<and> ur_document (fst (uploadDocuments example_env two_files_form world0)) = Some (hd docs))"
proof -
  let ?u = "uploadDocuments example_env two_files_form world0"
  have s: "ur_success (fst ?u)" by (rule conjunct1 [OF uploadDocuments_two_files])
  have f: "instanceof_File (uf_files two_files_form) = [text_file, image_file]"
    by (simp add: two_files_form_def instanceof_File_def)
  have ne: "instanceof_File (uf_files two_files_form) \<noteq> []" by (simp add: f)
  have p: "?u = (fst ?u, snd ?u)" by simp
  from uploadDocuments_first_document [OF p s ne] obtain docs ts where d:
    "length docs = length (instanceof_File (uf_files two_files_form))"
    "documents (w_db (snd ?u)) = documents (w_db world0) @ docs"
    "w_tasks (snd ?u) = w_tasks world0 @ ts" "map task_document ts = map d_id docs"
    "map d_original_filename docs = map f_name (instanceof_File (uf_files two_files_form))"
    "ur_document (fst ?u) = Some (hd docs)"
    by blast
  have "length docs = 2" using d(1) by (simp add: f)
  moreover have "map d_original_filename docs = [''hello.txt'', ''cat.png'']"
    using d(5) by (simp add: f text_file_def image_file_def)
  ultimately have "\<exists>docs ts.
         length docs = 2
       \<and> documents (w_db (snd ?u)) = documents (w_db world0) @ docs
       \<and> w_tasks (snd ?u) = w_tasks world0 @ ts
       \<and> map task_document ts = map d_id docs
       \<and> map d_original_filename docs = [''hello.txt'', ''cat.png'']
       \<and> ur_document (fst ?u) = Some (hd docs)"
    using d(2,3,4,6) by (intro exI [of _ docs] exI [of _ ts] conjI)
  with s f show ?thesis by (intro conjI)
qed

section \<open>Properties of the pipelines\<close>


lemma document_chunks_update_document [simp]:
  "document_chunks (update_document doc_id f db) = document_chunks db"
  by (simp add: update_document_def)





lemma chunks_of_same:
  "document_chunks db' = document_chunks db \<Longrightarrow> chunks_of i db' = chunks_of i db"
  by (simp add: chunks_of_def)



lemma add_document_tag_frame:
  "add_document_tag db doc_id n c s = Inr db' \<Longrightarrow>
   documents db' = documents db \<and> document_chunks db' = document_chunks db"
  by (auto simp: add_document_tag_def get_or_create_tag_def split: option.splits if_splits)

lemma rpc_add_document_tag_frame [simp]:
  "documents (rpc_add_document_tag doc_id n c s db) = documents db"
  "document_chunks (rpc_add_document_tag doc_id n c s db) = document_chunks db"
  by (auto simp: rpc_add_document_tag_def split: sum.splits dest: add_document_tag_frame)

















lemma at_statusD:
  "at_status documentId k s db \<Longrightarrow> k < length (documents db) \<and> processed_at_iff (documents db ! k)"
  by (simp add: at_status_def)
















section \<open>Properties of the search\<close>



lemma search_queries_record [simp]:
  "search_queries (record_search_results i rows db) = search_queries db"
  by (simp add: record_search_results_def)







end
